theory Spec2Isabelle
  imports Main "HOL-Library.Word" "HOL-Library.Sublist"
begin

section \<open>The platform view service protocol of the shell\<close>

text \<open>
  A shallow embedding of \<^verbatim>\<open>shell/common/platform_view_service_protocol.cc\<close>: the
  handlers that the Dart VM service calls for \<^verbatim>\<open>_flutter.listViews\<close>,
  \<^verbatim>\<open>_flutter.runInView\<close>, \<^verbatim>\<open>_flutter.screenshot\<close>, \<^verbatim>\<open>_flutter.screenshotSkp\<close> and
  \<^verbatim>\<open>_flutter.flushUIThreadTasks\<close>.

  A \<^verbatim>\<open>const char*\<close> that may be \<^verbatim>\<open>NULL\<close> is a \<open>string option\<close>; an array of C
  strings is a list, read through \<open>array_read\<close>, which faults outside the list; the
  entries of the key and value arrays that the VM service passes are strings. A call
  that does not return normally (a null pointer dereferenced, an array read out of
  bounds, a C++ exception that nothing catches) is \<open>Inl\<close> of a \<open>fault\<close>; a call that
  returns is \<open>Inr\<close> of its result.
\<close>

subsection \<open>Faults, machine integers\<close>

datatype fault =
    NullPointerDereference
  | OutOfBoundsRead
  | std_invalid_argument
  | std_out_of_range

text \<open>\<^verbatim>\<open>uintptr_t\<close> and \<^verbatim>\<open>unsigned long long\<close> on a 64-bit target; \<^verbatim>\<open>Dart_Port\<close> is \<^verbatim>\<open>int64_t\<close>,
  read with \<open>sint\<close>.\<close>

type_synonym uintptr_t = "64 word"
type_synonym Dart_Port = "64 word"

text \<open>\<^verbatim>\<open>ILLEGAL_PORT\<close> comes from the Dart embedding API (\<^verbatim>\<open>dart_api.h\<close>), where it is
  \<^verbatim>\<open>((Dart_Port)0)\<close>.\<close>

definition ILLEGAL_PORT :: Dart_Port where
  "ILLEGAL_PORT = 0"

subsection \<open>C strings and arrays\<close>

text \<open>\<open>strcmp_zero a b\<close> is \<^verbatim>\<open>strcmp(a, b) == 0\<close> and \<open>strncmp_zero a b n\<close> is
  \<^verbatim>\<open>strncmp(a, b, n) == 0\<close>; the end of the list is the terminating NUL.\<close>

fun strcmp_zero :: "string \<Rightarrow> string \<Rightarrow> bool" where
  "strcmp_zero [] [] = True"
| "strcmp_zero (x # xs) (y # ys) = (x = y \<and> strcmp_zero xs ys)"
| "strcmp_zero _ _ = False"

fun strncmp_zero :: "string \<Rightarrow> string \<Rightarrow> nat \<Rightarrow> bool" where
  "strncmp_zero _ _ 0 = True"
| "strncmp_zero [] [] (Suc n) = True"
| "strncmp_zero (x # xs) (y # ys) (Suc n) = (x = y \<and> strncmp_zero xs ys n)"
| "strncmp_zero _ _ (Suc n) = False"

definition array_read :: "'a list \<Rightarrow> int \<Rightarrow> fault + 'a" where
  "array_read xs i =
     (if 0 \<le> i \<and> i < int (length xs) then Inr (xs ! nat i) else Inl OutOfBoundsRead)"

subsection \<open>Printing numbers into a stream\<close>

text \<open>What \<^verbatim>\<open>operator<<\<close> and \<^verbatim>\<open>std::to_string\<close> of the C++ library write for an
  integer: decimal digits with a minus sign for a negative value, and, under
  \<^verbatim>\<open>std::hex\<close>, lower-case hexadecimal digits of an unsigned value, with no leading
  zeros and no base prefix.\<close>

text \<open>The digit of a value below 16; the printers below call it with \<open>n mod 10\<close>,
  \<open>n mod 16\<close> or an \<open>n\<close> below the base only.\<close>

definition digit_char :: "nat \<Rightarrow> char" where
  "digit_char d = ''0123456789abcdef'' ! d"

function dec_of_nat :: "nat \<Rightarrow> string" where
  "dec_of_nat n = (if n < 10 then [digit_char n] else dec_of_nat (n div 10) @ [digit_char (n mod 10)])"
  by pat_completeness auto
termination
  by (relation "measure id") auto

function hex_of_nat :: "nat \<Rightarrow> string" where
  "hex_of_nat n = (if n < 16 then [digit_char n] else hex_of_nat (n div 16) @ [digit_char (n mod 16)])"
  by pat_completeness auto
termination
  by (relation "measure id") auto

declare dec_of_nat.simps [simp del]
declare hex_of_nat.simps [simp del]

definition dec_of_int :: "int \<Rightarrow> string" where
  "dec_of_int i = (if i < 0 then CHR ''-'' # dec_of_nat (nat (- i)) else dec_of_nat (nat i))"

definition stream_hex :: "uintptr_t \<Rightarrow> string" where
  "stream_hex w = hex_of_nat (unat w)"

definition stream_int64 :: "Dart_Port \<Rightarrow> string" where
  "stream_int64 p = dec_of_int (sint p)"

subsection \<open>Parameter lookup\<close>

definition kViewIdPrefx :: string where
  "kViewIdPrefx = ''_flutterView/''"

definition kViewIdPrefxLength :: nat where
  "kViewIdPrefxLength = length kViewIdPrefx"

text \<open>The \<^verbatim>\<open>for\<close> loop of \<^verbatim>\<open>KeyIndex\<close>, from index \<open>i\<close> on.\<close>

function KeyIndex_loop :: "string list \<Rightarrow> int \<Rightarrow> string \<Rightarrow> int \<Rightarrow> fault + int" where
  "KeyIndex_loop param_keys num_params key i =
     (if i < num_params then
        (case array_read param_keys i of
           Inl e \<Rightarrow> Inl e
         | Inr k \<Rightarrow>
             if strcmp_zero k key then Inr i
             else KeyIndex_loop param_keys num_params key (i + 1))
      else Inr (- 1))"
  by pat_completeness auto
termination
  by (relation "measure (\<lambda>(param_keys, num_params, key, i). nat (num_params - i))") auto

declare KeyIndex_loop.simps [simp del]

definition KeyIndex :: "string list option \<Rightarrow> int \<Rightarrow> string \<Rightarrow> fault + int" where
  "KeyIndex param_keys num_params key =
     (case param_keys of
        None \<Rightarrow> Inr (- 1)
      | Some keys \<Rightarrow> KeyIndex_loop keys num_params key 0)"

definition ValueForKey ::
  "string list option \<Rightarrow> string list \<Rightarrow> int \<Rightarrow> string \<Rightarrow> fault + string option" where
  "ValueForKey param_keys param_values num_params key =
     (case KeyIndex param_keys num_params key of
        Inl e \<Rightarrow> Inl e
      | Inr index \<Rightarrow>
          if index < 0 then Inr None
          else (case array_read param_values index of
                  Inl e \<Rightarrow> Inl e
                | Inr v \<Rightarrow> Inr (Some v)))"

subsection \<open>Error responses\<close>

text \<open>The output parameter \<^verbatim>\<open>json_object\<close> is the list of the strings assigned to
  \<^verbatim>\<open>*json_object\<close> so far, oldest first; a handler starts with the empty list, so the
  length of the list it returns is the number of responses it has written.\<close>

type_synonym json_slot = "string list"

definition kInvalidParams :: int where
  "kInvalidParams = - 32602"

definition kServerError :: int where
  "kServerError = - 32000"

definition ErrorMissingParameter :: "json_slot \<Rightarrow> string \<Rightarrow> bool \<times> json_slot" where
  \<open>ErrorMissingParameter json_object name =
     (False, json_object @
        [''{"code":'' @ dec_of_int kInvalidParams @ '','' @
         ''"message":"Invalid params",'' @
         ''"data": {"details": "'' @ name @ ''"}}''])\<close>

definition ErrorBadParameter :: "json_slot \<Rightarrow> string \<Rightarrow> string \<Rightarrow> bool \<times> json_slot" where
  \<open>ErrorBadParameter json_object name val =
     (False, json_object @
        [''{"code":'' @ dec_of_int kInvalidParams @ '','' @
         ''"message":"Invalid params",'' @
         ''"data": {"details": "parameter: '' @ name @ '' has a bad '' @
         ''value: '' @ val @ ''"}}''])\<close>

definition ErrorUnknownView :: "json_slot \<Rightarrow> string \<Rightarrow> bool \<times> json_slot" where
  \<open>ErrorUnknownView json_object view_id =
     (False, json_object @
        [''{"code":'' @ dec_of_int kInvalidParams @ '','' @
         ''"message":"Invalid params",'' @
         ''"data": {"details": "view not found: '' @ view_id @ ''"}}''])\<close>

definition ErrorServer :: "json_slot \<Rightarrow> string \<Rightarrow> bool \<times> json_slot" where
  \<open>ErrorServer json_object message =
     (False, json_object @
        [''{"code":'' @ dec_of_int kServerError @ '','' @
         ''"message":"'' @ message @ ''"}''])\<close>

subsection \<open>View descriptors\<close>

text \<open>A \<^verbatim>\<open>std::stringstream\<close> is the string written so far.\<close>

definition AppendIsolateRef :: "string \<Rightarrow> Dart_Port \<Rightarrow> string \<Rightarrow> string" where
  \<open>AppendIsolateRef stream main_port name =
     stream @ ''{"type":"@Isolate","fixedId":true,"id":"isolates/'' @
     stream_int64 main_port @ ''","name":"'' @ name @ ''",'' @
     ''"number":"'' @ stream_int64 main_port @ ''"}''\<close>

definition AppendFlutterView :: "string \<Rightarrow> uintptr_t \<Rightarrow> Dart_Port \<Rightarrow> string \<Rightarrow> string" where
  \<open>AppendFlutterView stream view_id isolate_id isolate_name =
     (let s1 = stream @ ''{"type":"FlutterView", "id": "'' @ kViewIdPrefx @ ''0x'' @
                 stream_hex view_id @ ''"'';
          s2 = (if isolate_id \<noteq> ILLEGAL_PORT
                then AppendIsolateRef (s1 @ '','' @ ''"isolate":'') isolate_id isolate_name
                else s1)
      in s2 @ ''}'')\<close>

subsection \<open>Parsing the view handle\<close>

text \<open>\<^verbatim>\<open>std::stoull(str, nullptr, 16)\<close> of the C++ library, which is \<^verbatim>\<open>strtoull\<close> with base
  16: leading white space is skipped, then an optional sign, then an optional
  \<^verbatim>\<open>0x\<close> or \<^verbatim>\<open>0X\<close> in front of a hexadecimal digit, then the longest run of
  hexadecimal digits; whatever follows is ignored. With no digit it throws
  \<^verbatim>\<open>std::invalid_argument\<close>, with a value above \<^verbatim>\<open>ULLONG_MAX\<close> it throws
  \<^verbatim>\<open>std::out_of_range\<close>; a minus sign negates the value in the unsigned type.\<close>

definition isspace :: "char \<Rightarrow> bool" where
  "isspace c = (c \<in> {CHR '' '', CHR 0x09, CHR 0x0A, CHR 0x0B, CHR 0x0C, CHR 0x0D})"

definition hex_digit_value :: "char \<Rightarrow> nat option" where
  "hex_digit_value c =
     (let n = (of_char c :: nat)
      in if 48 \<le> n \<and> n \<le> 57 then Some (n - 48)
         else if 97 \<le> n \<and> n \<le> 102 then Some (n - 87)
         else if 65 \<le> n \<and> n \<le> 70 then Some (n - 55)
         else None)"

definition isxdigit :: "char \<Rightarrow> bool" where
  "isxdigit c = (hex_digit_value c \<noteq> None)"

fun strip_sign :: "string \<Rightarrow> bool \<times> string" where
  "strip_sign [] = (False, [])"
| "strip_sign (c # cs) =
     (if c = CHR ''-'' then (True, cs)
      else if c = CHR ''+'' then (False, cs)
      else (False, c # cs))"

fun strip_0x :: "string \<Rightarrow> string" where
  "strip_0x (a # b # c # cs) =
     (if a = CHR ''0'' \<and> (b = CHR ''x'' \<or> b = CHR ''X'') \<and> isxdigit c then c # cs
      else a # b # c # cs)"
| "strip_0x cs = cs"

definition hex_value :: "string \<Rightarrow> nat" where
  "hex_value ds =
     foldl (\<lambda>acc c. acc * 16 + (case hex_digit_value c of Some d \<Rightarrow> d | None \<Rightarrow> 0)) 0 ds"

definition stoull_base16 :: "string \<Rightarrow> fault + 64 word" where
  "stoull_base16 str =
     (case strip_sign (dropWhile isspace str) of
        (negative, rest) \<Rightarrow>
          (let digits = takeWhile isxdigit (strip_0x rest)
           in if digits = [] then Inl std_invalid_argument
              else if 2 ^ 64 \<le> hex_value digits then Inl std_out_of_range
              else Inr (if negative then - word_of_nat (hex_value digits)
                        else word_of_nat (hex_value digits))))"

subsection \<open>\<^verbatim>\<open>_flutter.runInView\<close>\<close>

text \<open>\<^verbatim>\<open>Shell::RunInPlatformView\<close> is outside this file: it is a parameter, a function
  from the view handle, main script, packages file and asset directory to the values
  it leaves in \<^verbatim>\<open>view_existed\<close>, \<^verbatim>\<open>main_port\<close> and \<^verbatim>\<open>isolate_name\<close>.\<close>

type_synonym RunInPlatformView_fn =
  "uintptr_t \<Rightarrow> string \<Rightarrow> string \<Rightarrow> string \<Rightarrow> bool \<times> Dart_Port \<times> string"

text \<open>The \<^verbatim>\<open>if (!view_existed) { ... } else { ... }\<close> statement that ends the body.
  \<open>Some r\<close>: the statement executed \<^verbatim>\<open>return\<close> with \<open>r\<close>; \<open>None\<close>: control left the
  statement at its end, towards the \<^verbatim>\<open>return true\<close> that follows it.\<close>

definition RunInView_if_view_existed ::
  "json_slot \<Rightarrow> string \<Rightarrow> uintptr_t \<Rightarrow> bool \<Rightarrow> Dart_Port \<Rightarrow> string \<Rightarrow> (bool \<times> json_slot) option" where
  \<open>RunInView_if_view_existed json_object view_id view_id_as_num view_existed main_port isolate_name =
     (if \<not> view_existed then Some (ErrorUnknownView json_object view_id)
      else
        (let response = ''{"type":"Success",'' @ ''"view":'';
             response = AppendFlutterView response view_id_as_num main_port isolate_name;
             response = response @ ''}''
         in Some (True, json_object @ [response])))\<close>

text \<open>The body of \<^verbatim>\<open>RunInView\<close> after the four lookups. The parameters \<^verbatim>\<open>method\<close> and
  \<^verbatim>\<open>user_data\<close> are not read by the handler and are left out.\<close>

definition RunInView_checks ::
  "RunInPlatformView_fn \<Rightarrow> json_slot \<Rightarrow> string option \<Rightarrow> string option \<Rightarrow> string option \<Rightarrow>
   string option \<Rightarrow> fault + (bool \<times> json_slot)" where
  "RunInView_checks RunInPlatformView json_object view_id asset_directory main_script packages_file =
     (case view_id of
        None \<Rightarrow> Inr (ErrorMissingParameter json_object ''viewId'')
      | Some view_id \<Rightarrow>
     if \<not> strncmp_zero view_id kViewIdPrefx kViewIdPrefxLength
     then Inr (ErrorBadParameter json_object ''viewId'' view_id)
     else
     (case asset_directory of
        None \<Rightarrow> Inr (ErrorMissingParameter json_object ''assetDirectory'')
      | Some asset_directory \<Rightarrow>
     (case main_script of
        None \<Rightarrow> Inr (ErrorMissingParameter json_object ''mainScript'')
      | Some main_script \<Rightarrow>
     (case packages_file of
        None \<Rightarrow> Inr (ErrorMissingParameter json_object ''packagesFile'')
      | Some packages_file \<Rightarrow>
     (case stoull_base16 (drop kViewIdPrefxLength view_id) of
        Inl e \<Rightarrow> Inl e
      | Inr view_id_as_num \<Rightarrow>
     (case RunInPlatformView view_id_as_num main_script packages_file asset_directory of
        (view_existed, main_port, isolate_name) \<Rightarrow>
     (case RunInView_if_view_existed json_object view_id view_id_as_num
             view_existed main_port isolate_name of
        Some r \<Rightarrow> Inr r
      | None \<Rightarrow> Inr (True, json_object))))))))"

definition RunInView ::
  "RunInPlatformView_fn \<Rightarrow> string list option \<Rightarrow> string list \<Rightarrow> int \<Rightarrow> fault + (bool \<times> json_slot)" where
  "RunInView RunInPlatformView param_keys param_values num_params =
     (case ValueForKey param_keys param_values num_params ''viewId'' of
        Inl e \<Rightarrow> Inl e
      | Inr view_id \<Rightarrow>
     (case ValueForKey param_keys param_values num_params ''assetDirectory'' of
        Inl e \<Rightarrow> Inl e
      | Inr asset_directory \<Rightarrow>
     (case ValueForKey param_keys param_values num_params ''mainScript'' of
        Inl e \<Rightarrow> Inl e
      | Inr main_script \<Rightarrow>
     (case ValueForKey param_keys param_values num_params ''packagesFile'' of
        Inl e \<Rightarrow> Inl e
      | Inr packages_file \<Rightarrow>
          RunInView_checks RunInPlatformView [] view_id asset_directory main_script
            packages_file))))"

subsection \<open>The views of the shell\<close>

text \<open>What the handlers read from a \<^verbatim>\<open>PlatformView*\<close>: its address, the main port and
  name of the UI isolate of its engine, and the weak pointer to its rasterizer
  (\<open>None\<close>: the weak pointer is null). A rasterizer gives its last layer tree
  (\<open>None\<close>: \<^verbatim>\<open>nullptr\<close>). The layer tree is of a type \<open>'tree\<close> left open.\<close>

datatype 'tree Rasterizer = Rasterizer (GetLastLayerTree: "'tree option")

record 'tree PlatformView =
  view_address :: uintptr_t
  GetUIIsolateMainPort :: Dart_Port
  GetUIIsolateName :: string
  GetWeakRasterizerPtr :: "'tree Rasterizer option"

text \<open>Modelled from the spec: \<^verbatim>\<open>Shell::IteratePlatformViews\<close> is not in this file. The view
  registry hands the active views to the callback one after the other, and stops when
  the callback returns false. The variables the callback captures by reference are the
  state \<open>s\<close>.\<close>

fun IteratePlatformViews :: "('s \<Rightarrow> 'v \<Rightarrow> bool \<times> 's) \<Rightarrow> 'v list \<Rightarrow> 's \<Rightarrow> 's" where
  "IteratePlatformViews iterator [] s = s"
| "IteratePlatformViews iterator (view # views) s =
     (case iterator s view of
        (continue, s') \<Rightarrow> if continue then IteratePlatformViews iterator views s' else s')"

subsection \<open>\<^verbatim>\<open>_flutter.listViews\<close>\<close>

text \<open>The lambda of \<^verbatim>\<open>ListViews\<close>; it captures \<^verbatim>\<open>response\<close> and \<^verbatim>\<open>prefix_comma\<close>.\<close>

definition ListViews_iterator ::
  "string \<times> bool \<Rightarrow> ('tree, 'more) PlatformView_scheme \<Rightarrow> bool \<times> (string \<times> bool)" where
  "ListViews_iterator s view =
     (case s of
        (response, prefix_comma) \<Rightarrow>
          (let response = (if prefix_comma then response @ '','' else response);
               prefix_comma = True;
               response = AppendFlutterView response (view_address view)
                            (GetUIIsolateMainPort view) (GetUIIsolateName view)
           in (True, (response, prefix_comma))))"

definition ListViews :: "('tree, 'more) PlatformView_scheme list \<Rightarrow> bool \<times> json_slot" where
  \<open>ListViews views =
     (let response = ''{"type":"FlutterViewList","views":['';
          prefix_comma = False;
          (response, prefix_comma) =
             IteratePlatformViews ListViews_iterator views (response, prefix_comma);
          response = response @ '']}''
      in (True, [response]))\<close>

subsection \<open>Screenshots\<close>

text \<open>The graphics library (Skia and the compositor) is outside this file; the handlers
  take its operations as a record of functions. A bitmap is either without pixels, as
  the default-constructed \<^verbatim>\<open>SkBitmap\<close> is, or holds pixels of a width and a height.
  The task posted to the GPU thread has run to its end when the latch releases the
  handler, so the handler is the task followed by the rest of the body.\<close>

datatype 'px SkBitmap = NoPixels | Pixels int int 'px

record ('tree, 'px, 'pic) graphics =
  frame_size :: "'tree \<Rightarrow> int \<times> int"
  tryAllocN32Pixels :: "int \<Rightarrow> int \<Rightarrow> bool"
  MakeRasterDirect_ok :: "int \<Rightarrow> int \<Rightarrow> bool"
  Raster_pixels :: "'tree \<Rightarrow> 'px"
  Raster_picture :: "'tree \<Rightarrow> 'pic"
  SkEncodeBitmap_PNG :: "'px SkBitmap \<Rightarrow> 8 word list option"
  serialize :: "'pic \<Rightarrow> 8 word list"
  SkBase64_Encode :: "8 word list \<Rightarrow> string"

definition EncodeBitmapAsPNG ::
  "('tree, 'px, 'pic) graphics \<Rightarrow> 'px SkBitmap \<Rightarrow> 8 word list option" where
  "EncodeBitmapAsPNG g bitmap = SkEncodeBitmap_PNG g bitmap"

definition GetRandomRasterizer ::
  "('tree, 'more) PlatformView_scheme list \<Rightarrow> 'tree Rasterizer option" where
  "GetRandomRasterizer views =
     IteratePlatformViews (\<lambda>rasterizer view. (False, GetWeakRasterizerPtr view)) views None"

definition ScreenshotGpuTask ::
  "('tree, 'px, 'pic) graphics \<Rightarrow> ('tree, 'more) PlatformView_scheme list \<Rightarrow> 'px SkBitmap \<Rightarrow>
   fault + 'px SkBitmap" where
  "ScreenshotGpuTask g views bitmap =
     (case GetRandomRasterizer views of
        None \<Rightarrow> Inr bitmap
      | Some rasterizer \<Rightarrow>
     (case GetLastLayerTree rasterizer of
        None \<Rightarrow> Inr bitmap
      | Some layer_tree \<Rightarrow>
     (case frame_size g layer_tree of
        (width, height) \<Rightarrow>
          if \<not> tryAllocN32Pixels g width height then Inr NoPixels
          else if \<not> MakeRasterDirect_ok g width height then Inl NullPointerDereference
          else Inr (Pixels width height (Raster_pixels g layer_tree)))))"

definition Screenshot ::
  "('tree, 'px, 'pic) graphics \<Rightarrow> ('tree, 'more) PlatformView_scheme list \<Rightarrow>
   fault + (bool \<times> json_slot)" where
  \<open>Screenshot g views =
     (case ScreenshotGpuTask g views NoPixels of
        Inl e \<Rightarrow> Inl e
      | Inr bitmap \<Rightarrow>
     (case EncodeBitmapAsPNG g bitmap of
        None \<Rightarrow> Inr (ErrorServer [] ''can not encode screenshot'')
      | Some png \<Rightarrow>
          Inr (True, [''{"type":"Screenshot",'' @
                      ''"screenshot":"'' @ SkBase64_Encode g png @ ''"}''])))\<close>

definition ScreenshotSkpGpuTask ::
  "('tree, 'px, 'pic) graphics \<Rightarrow> ('tree, 'more) PlatformView_scheme list \<Rightarrow> 'pic option" where
  "ScreenshotSkpGpuTask g views =
     (case GetRandomRasterizer views of
        None \<Rightarrow> None
      | Some rasterizer \<Rightarrow>
     (case GetLastLayerTree rasterizer of
        None \<Rightarrow> None
      | Some layer_tree \<Rightarrow> Some (Raster_picture g layer_tree)))"

text \<open>\<^verbatim>\<open>picture->serialize()\<close> dereferences the pointer the task returned.\<close>

definition ScreenshotSkp ::
  "('tree, 'px, 'pic) graphics \<Rightarrow> ('tree, 'more) PlatformView_scheme list \<Rightarrow>
   fault + (bool \<times> json_slot)" where
  \<open>ScreenshotSkp g views =
     (case ScreenshotSkpGpuTask g views of
        None \<Rightarrow> Inl NullPointerDereference
      | Some picture \<Rightarrow>
          (let skp_data = serialize g picture
           in Inr (True, [''{"type":"ScreenshotSkp",'' @
                          ''"skp":"'' @ SkBase64_Encode g skp_data @ ''"}''])))\<close>

subsection \<open>Registration of the handlers\<close>

datatype handler =
    ListViews_handler
  | Screenshot_handler
  | ScreenshotSkp_handler
  | RunInView_handler
  | FlushUIThreadTasks_handler

definition kRunInViewExtensionName :: string where
  "kRunInViewExtensionName = ''_flutter.runInView''"

definition kListViewsExtensionName :: string where
  "kListViewsExtensionName = ''_flutter.listViews''"

definition kScreenshotExtensionName :: string where
  "kScreenshotExtensionName = ''_flutter.screenshot''"

definition kScreenshotSkpExtensionName :: string where
  "kScreenshotSkpExtensionName = ''_flutter.screenshotSkp''"

definition kFlushUIThreadTasksExtensionName :: string where
  "kFlushUIThreadTasksExtensionName = ''_flutter.flushUIThreadTasks''"

text \<open>\<^verbatim>\<open>Dart_RegisterRootServiceRequestCallback\<close> belongs to the Dart VM. The registrations
  made so far are the list of the calls, oldest first, each a name and a handler.\<close>

type_synonym registry = "(string \<times> handler) list"

definition Dart_RegisterRootServiceRequestCallback ::
  "string \<Rightarrow> handler \<Rightarrow> registry \<Rightarrow> registry" where
  "Dart_RegisterRootServiceRequestCallback name callback reg = reg @ [(name, callback)]"

definition RegisterHook :: "bool \<Rightarrow> registry \<Rightarrow> registry" where
  "RegisterHook running_precompiled_code reg =
     (let reg = Dart_RegisterRootServiceRequestCallback kListViewsExtensionName
                  ListViews_handler reg;
          reg = Dart_RegisterRootServiceRequestCallback kScreenshotExtensionName
                  Screenshot_handler reg;
          reg = Dart_RegisterRootServiceRequestCallback kScreenshotSkpExtensionName
                  ScreenshotSkp_handler reg
      in if running_precompiled_code then reg
         else
           (let reg = Dart_RegisterRootServiceRequestCallback kRunInViewExtensionName
                        RunInView_handler reg;
                reg = Dart_RegisterRootServiceRequestCallback kFlushUIThreadTasksExtensionName
                        FlushUIThreadTasks_handler reg
            in reg))"

section \<open>Terms of the specification and example inputs\<close>

text \<open>The contract of the caller of a handler: when the key array is not \<^verbatim>\<open>NULL\<close>, the
  key array and the value array hold at least \<open>num_params\<close> entries.\<close>

definition wf_params :: "string list option \<Rightarrow> string list \<Rightarrow> int \<Rightarrow> bool" where
  "wf_params param_keys param_values num_params =
     (case param_keys of
        None \<Rightarrow> True
      | Some keys \<Rightarrow> num_params \<le> int (length keys) \<and> num_params \<le> int (length param_values))"

text \<open>Two shells for the examples: one that knows no view, and one whose only view has
  the handle \<^verbatim>\<open>0x7f00ab\<close> and starts an isolate with main port 42.\<close>

definition no_views_shell :: RunInPlatformView_fn where
  "no_views_shell view_id main_script packages_file asset_directory = (False, ILLEGAL_PORT, [])"

definition one_view_shell :: RunInPlatformView_fn where
  "one_view_shell view_id main_script packages_file asset_directory =
     (if view_id = 0x7f00ab then (True, 42, ''main.dart$main'') else (False, ILLEGAL_PORT, []))"

text \<open>The arrays of a complete \<^verbatim>\<open>_flutter.runInView\<close> request. Passing a smaller
  \<open>num_params\<close> with them gives a request without the last parameters.\<close>

definition request_keys :: "string list" where
  "request_keys = [''viewId'', ''assetDirectory'', ''mainScript'', ''packagesFile'']"

definition request_values :: "string list" where
  "request_values = [''_flutterView/0x7f00ab'', ''assets'', ''main.dart'', ''.packages'']"

text \<open>The specification's words for the response of \<^verbatim>\<open>_flutter.listViews\<close>: view
  descriptors, separated by commas. A view descriptor is the JSON object with the
  type \<^verbatim>\<open>FlutterView\<close>, the id of the view, and the reference to its isolate when it
  has one.\<close>

fun comma_separated :: "string list \<Rightarrow> string" where
  "comma_separated [] = []"
| "comma_separated [x] = x"
| "comma_separated (x # y # zs) = x @ '','' @ comma_separated (y # zs)"

definition view_descriptor :: "('tree, 'more) PlatformView_scheme \<Rightarrow> string" where
  \<open>view_descriptor view =
     ''{"type":"FlutterView", "id": "_flutterView/0x'' @ stream_hex (view_address view) @ ''"'' @
     (if GetUIIsolateMainPort view \<noteq> ILLEGAL_PORT
      then '',"isolate":'' @
           ''{"type":"@Isolate","fixedId":true,"id":"isolates/'' @
           stream_int64 (GetUIIsolateMainPort view) @ ''","name":"'' @ GetUIIsolateName view @
           ''","number":"'' @ stream_int64 (GetUIIsolateMainPort view) @ ''"}''
      else []) @ ''}''\<close>

text \<open>The specification's "no view/rasterizer exists", together with "the rasterizer
  has no last layer tree": there is no view, or the first view has no rasterizer, or
  the rasterizer of the first view has no last layer tree.\<close>

definition no_last_frame :: "('tree, 'more) PlatformView_scheme list \<Rightarrow> bool" where
  "no_last_frame views =
     (case views of
        [] \<Rightarrow> True
      | view # _ \<Rightarrow>
          (case GetWeakRasterizerPtr view of
             None \<Rightarrow> True
           | Some rasterizer \<Rightarrow> GetLastLayerTree rasterizer = None))"

text \<open>Example views: one with a rasterizer that has not rendered a frame yet, one
  without rasterizer and without isolate; and a graphics library whose PNG encoder
  fails on a bitmap without pixels.\<close>

definition idle_view :: "unit PlatformView" where
  "idle_view = \<lparr>view_address = 0x7f00ab, GetUIIsolateMainPort = 42,
     GetUIIsolateName = ''main.dart$main'', GetWeakRasterizerPtr = Some (Rasterizer None)\<rparr>"

definition headless_view :: "unit PlatformView" where
  "headless_view = \<lparr>view_address = 0x10, GetUIIsolateMainPort = ILLEGAL_PORT,
     GetUIIsolateName = [], GetWeakRasterizerPtr = None\<rparr>"

definition stub_graphics :: "(unit, unit, unit) graphics" where
  "stub_graphics = \<lparr>frame_size = (\<lambda>layer_tree. (1, 1)),
     tryAllocN32Pixels = (\<lambda>width height. True),
     MakeRasterDirect_ok = (\<lambda>width height. 0 < width \<and> 0 < height),
     Raster_pixels = (\<lambda>layer_tree. ()),
     Raster_picture = (\<lambda>layer_tree. ()),
     SkEncodeBitmap_PNG = (\<lambda>bitmap. case bitmap of NoPixels \<Rightarrow> None | Pixels w h px \<Rightarrow> Some [0x89, 0x50, 0x4E, 0x47]),
     serialize = (\<lambda>picture. [0x73, 0x6B]),
     SkBase64_Encode = (\<lambda>bytes. ''c2s='')\<rparr>"

section \<open>Properties of the building blocks\<close>

subsection \<open>String comparison and the lookup loop\<close>

lemma strcmp_zero_iff: "strcmp_zero a b \<longleftrightarrow> a = b"
  by (induction a b rule: strcmp_zero.induct) auto

lemma strncmp_zero_take: "strncmp_zero a b n \<longleftrightarrow> take n a = take n b"
  by (induction a b n rule: strncmp_zero.induct) auto

lemma strncmp_zero_prefix:
  "strncmp_zero view_id kViewIdPrefx kViewIdPrefxLength \<longleftrightarrow> prefix kViewIdPrefx view_id"
proof -
  have "take (length kViewIdPrefx) view_id = kViewIdPrefx \<longleftrightarrow> prefix kViewIdPrefx view_id"
    by (metis append_eq_conv_conj prefix_def)
  then show ?thesis
    by (simp add: strncmp_zero_take kViewIdPrefxLength_def)
qed

lemma KeyIndex_loop_absent:
  "0 \<le> i \<Longrightarrow> num_params \<le> int (length keys) \<Longrightarrow>
   (\<forall>m. i \<le> m \<and> m < num_params \<longrightarrow> keys ! nat m \<noteq> key) \<Longrightarrow>
   KeyIndex_loop keys num_params key i = Inr (- 1)"
proof (induction keys num_params key i rule: KeyIndex_loop.induct)
  case (1 param_keys num_params key i)
  show ?case
  proof (cases "i < num_params")
    case False
    then show ?thesis by (simp add: KeyIndex_loop.simps)
  next
    case True
    with "1.prems" have rd: "array_read param_keys i = Inr (param_keys ! nat i)"
      by (simp add: array_read_def)
    from True "1.prems" have ne: "\<not> strcmp_zero (param_keys ! nat i) key"
      by (simp add: strcmp_zero_iff)
    have "KeyIndex_loop param_keys num_params key (i + 1) = Inr (- 1)"
      using "1.IH"[OF True rd ne] "1.prems" by simp
    with True rd ne show ?thesis
      by (subst KeyIndex_loop.simps) simp
  qed
qed

lemma KeyIndex_loop_found:
  "0 \<le> i \<Longrightarrow> i \<le> j \<Longrightarrow> j < num_params \<Longrightarrow> num_params \<le> int (length keys) \<Longrightarrow>
   keys ! nat j = key \<Longrightarrow> (\<forall>m. i \<le> m \<and> m < j \<longrightarrow> keys ! nat m \<noteq> key) \<Longrightarrow>
   KeyIndex_loop keys num_params key i = Inr j"
proof (induction keys num_params key i rule: KeyIndex_loop.induct)
  case (1 param_keys num_params key i)
  from "1.prems" have lt: "i < num_params" by simp
  with "1.prems" have rd: "array_read param_keys i = Inr (param_keys ! nat i)"
    by (simp add: array_read_def)
  show ?case
  proof (cases "i = j")
    case True
    with "1.prems" lt rd show ?thesis
      by (subst KeyIndex_loop.simps) (simp add: strcmp_zero_iff)
  next
    case False
    with "1.prems" have ne: "\<not> strcmp_zero (param_keys ! nat i) key"
      by (simp add: strcmp_zero_iff)
    have "KeyIndex_loop param_keys num_params key (i + 1) = Inr j"
      using "1.IH"[OF lt rd ne] "1.prems" False by simp
    with lt rd ne show ?thesis
      by (subst KeyIndex_loop.simps) simp
  qed
qed

lemma ValueForKey_NULL_keys: "ValueForKey None param_values num_params key = Inr None"
  by (simp add: ValueForKey_def KeyIndex_def)

lemma ValueForKey_absent:
  assumes "wf_params (Some keys) param_values num_params"
    and "\<forall>i < nat num_params. keys ! i \<noteq> key"
  shows "ValueForKey (Some keys) param_values num_params key = Inr None"
proof -
  have "\<forall>m. 0 \<le> m \<and> m < num_params \<longrightarrow> keys ! nat m \<noteq> key"
    using assms(2) by (simp add: nat_less_iff) 
  then have "KeyIndex_loop keys num_params key 0 = Inr (- 1)"
    using assms(1) by (intro KeyIndex_loop_absent) (simp_all add: wf_params_def)
  then show ?thesis by (simp add: ValueForKey_def KeyIndex_def)
qed

lemma ValueForKey_found:
  assumes "wf_params (Some keys) param_values num_params"
    and "i < nat num_params" and "keys ! i = key" and "\<forall>j < i. keys ! j \<noteq> key"
  shows "ValueForKey (Some keys) param_values num_params key = Inr (Some (param_values ! i))"
proof -
  have "\<forall>m. 0 \<le> m \<and> m < int i \<longrightarrow> keys ! nat m \<noteq> key"
    using assms(4) by (simp add: nat_less_iff)
  then have "KeyIndex_loop keys num_params key 0 = Inr (int i)"
    using assms(1,2,3) by (intro KeyIndex_loop_found) (simp_all add: wf_params_def)
  moreover have "array_read param_values (int i) = Inr (param_values ! i)"
    using assms(1,2) by (auto simp add: array_read_def wf_params_def)
  ultimately show ?thesis by (simp add: ValueForKey_def KeyIndex_def)
qed

lemma ValueForKey_returns:
  assumes "wf_params param_keys param_values num_params"
  shows "\<exists>r. ValueForKey param_keys param_values num_params key = Inr r"
proof (cases param_keys)
  case None
  then show ?thesis by (simp add: ValueForKey_NULL_keys)
next
  case (Some keys)
  show ?thesis
  proof (cases "\<exists>i < nat num_params. keys ! i = key")
    case False
    then show ?thesis using ValueForKey_absent[of keys param_values num_params key] assms Some
      by auto
  next
    case True
    define i where "i = (LEAST i. i < nat num_params \<and> keys ! i = key)"
    from True have p: "i < nat num_params \<and> keys ! i = key"
      unfolding i_def by (rule LeastI_ex)
    have "\<forall>j < i. keys ! j \<noteq> key"
    proof (intro allI impI notI)
      fix j assume "j < i" "keys ! j = key"
      with p have "j < nat num_params \<and> keys ! j = key" by simp
      then have "i \<le> j" unfolding i_def by (rule Least_le)
      with \<open>j < i\<close> show False by simp
    qed
    with p assms Some show ?thesis
      using ValueForKey_found[of keys param_values num_params i key] by auto
  qed
qed

subsection \<open>The text of the error responses\<close>

lemma dec_kInvalidParams: "dec_of_int kInvalidParams = ''-32602''"
  by (simp add: dec_of_int_def kInvalidParams_def dec_of_nat.simps digit_char_def)

lemma dec_kServerError: "dec_of_int kServerError = ''-32000''"
  by (simp add: dec_of_int_def kServerError_def dec_of_nat.simps digit_char_def)

lemma ErrorMissingParameter_text:
  \<open>ErrorMissingParameter json_object name =
     (False, json_object @
        [''{"code":-32602,"message":"Invalid params","data": {"details": "'' @ name @ ''"}}''])\<close>
  by (simp add: ErrorMissingParameter_def dec_kInvalidParams)

lemma ErrorBadParameter_text:
  \<open>ErrorBadParameter json_object name val =
     (False, json_object @
        [''{"code":-32602,"message":"Invalid params","data": {"details": "parameter: '' @ name @
         '' has a bad value: '' @ val @ ''"}}''])\<close>
  by (simp add: ErrorBadParameter_def dec_kInvalidParams)

lemma ErrorUnknownView_text:
  \<open>ErrorUnknownView json_object view_id =
     (False, json_object @
        [''{"code":-32602,"message":"Invalid params","data": {"details": "view not found: '' @
         view_id @ ''"}}''])\<close>
  by (simp add: ErrorUnknownView_def dec_kInvalidParams)

lemma ErrorServer_text:
  \<open>ErrorServer json_object message =
     (False, json_object @ [''{"code":-32000,"message":"'' @ message @ ''"}''])\<close>
  by (simp add: ErrorServer_def dec_kServerError)

subsection \<open>The checks of \<^verbatim>\<open>RunInView\<close>, one at a time\<close>

lemma RunInView_lookups:
  assumes "ValueForKey param_keys param_values num_params ''viewId'' = Inr view_id"
    and "ValueForKey param_keys param_values num_params ''assetDirectory'' = Inr asset_directory"
    and "ValueForKey param_keys param_values num_params ''mainScript'' = Inr main_script"
    and "ValueForKey param_keys param_values num_params ''packagesFile'' = Inr packages_file"
  shows "RunInView run param_keys param_values num_params =
         RunInView_checks run [] view_id asset_directory main_script packages_file"
  using assms by (simp add: RunInView_def)

lemma RunInView_wf:
  assumes "wf_params param_keys param_values num_params"
  shows "\<exists>view_id asset_directory main_script packages_file.
           ValueForKey param_keys param_values num_params ''viewId'' = Inr view_id
         \<and> ValueForKey param_keys param_values num_params ''assetDirectory'' = Inr asset_directory
         \<and> ValueForKey param_keys param_values num_params ''mainScript'' = Inr main_script
         \<and> ValueForKey param_keys param_values num_params ''packagesFile'' = Inr packages_file
         \<and> RunInView run param_keys param_values num_params =
             RunInView_checks run [] view_id asset_directory main_script packages_file"
proof -
  obtain a where a: "ValueForKey param_keys param_values num_params ''viewId'' = Inr a"
    using ValueForKey_returns[OF assms] by blast
  obtain b where b: "ValueForKey param_keys param_values num_params ''assetDirectory'' = Inr b"
    using ValueForKey_returns[OF assms] by blast
  obtain c where c: "ValueForKey param_keys param_values num_params ''mainScript'' = Inr c"
    using ValueForKey_returns[OF assms] by blast
  obtain d where d: "ValueForKey param_keys param_values num_params ''packagesFile'' = Inr d"
    using ValueForKey_returns[OF assms] by blast
  have "RunInView run param_keys param_values num_params = RunInView_checks run [] a b c d"
    by (rule RunInView_lookups[OF a b c d])
  with a b c d show ?thesis by (intro exI conjI)
qed

lemma checks_no_viewId:
  "RunInView_checks run json None b c d = Inr (ErrorMissingParameter json ''viewId'')"
  by (simp add: RunInView_checks_def)

lemma checks_bad_viewId:
  "\<not> prefix kViewIdPrefx v \<Longrightarrow>
   RunInView_checks run json (Some v) b c d = Inr (ErrorBadParameter json ''viewId'' v)"
  by (simp add: RunInView_checks_def strncmp_zero_prefix)

lemma checks_no_assetDirectory:
  "prefix kViewIdPrefx v \<Longrightarrow>
   RunInView_checks run json (Some v) None c d = Inr (ErrorMissingParameter json ''assetDirectory'')"
  by (simp add: RunInView_checks_def strncmp_zero_prefix)

lemma checks_no_mainScript:
  "prefix kViewIdPrefx v \<Longrightarrow>
   RunInView_checks run json (Some v) (Some b) None d = Inr (ErrorMissingParameter json ''mainScript'')"
  by (simp add: RunInView_checks_def strncmp_zero_prefix)

lemma checks_no_packagesFile:
  "prefix kViewIdPrefx v \<Longrightarrow>
   RunInView_checks run json (Some v) (Some b) (Some c) None =
     Inr (ErrorMissingParameter json ''packagesFile'')"
  by (simp add: RunInView_checks_def strncmp_zero_prefix)

lemma checks_all_present:
  "prefix kViewIdPrefx v \<Longrightarrow>
   RunInView_checks run json (Some v) (Some b) (Some c) (Some d) =
     (case stoull_base16 (drop kViewIdPrefxLength v) of
        Inl e \<Rightarrow> Inl e
      | Inr h \<Rightarrow>
          (case run h c d b of
             (view_existed, main_port, isolate_name) \<Rightarrow>
               (case RunInView_if_view_existed json v h view_existed main_port isolate_name of
                  Some r \<Rightarrow> Inr r
                | None \<Rightarrow> Inr (True, json))))"
  by (simp add: RunInView_checks_def strncmp_zero_prefix)

lemma if_view_existed_returns:
  "\<exists>ok response. RunInView_if_view_existed json v h e p nm = Some (ok, json @ [response])"
  by (cases e) (auto simp add: RunInView_if_view_existed_def ErrorUnknownView_def Let_def)

lemma checks_outcomes:
  "(\<exists>ok response. RunInView_checks run json a b c d = Inr (ok, json @ [response]))
   \<or> (\<exists>v e. a = Some v \<and> prefix kViewIdPrefx v \<and> b \<noteq> None \<and> c \<noteq> None \<and> d \<noteq> None \<and>
            stoull_base16 (drop kViewIdPrefxLength v) = Inl e \<and>
            RunInView_checks run json a b c d = Inl e)"
proof (cases a)
  case None
  then show ?thesis by (auto simp add: checks_no_viewId ErrorMissingParameter_def)
next
  case (Some v)
  show ?thesis
  proof (cases "prefix kViewIdPrefx v")
    case False
    with Some show ?thesis by (auto simp add: checks_bad_viewId ErrorBadParameter_def)
  next
    case True
    show ?thesis
    proof (cases b)
      case None
      with Some True show ?thesis
        by (auto simp add: checks_no_assetDirectory ErrorMissingParameter_def)
    next
      case b: (Some b')
      show ?thesis
      proof (cases c)
        case None
        with Some True b show ?thesis
          by (auto simp add: checks_no_mainScript ErrorMissingParameter_def)
      next
        case c: (Some c')
        show ?thesis
        proof (cases d)
          case None
          with Some True b c show ?thesis
            by (auto simp add: checks_no_packagesFile ErrorMissingParameter_def)
        next
          case d: (Some d')
          show ?thesis
          proof (cases "stoull_base16 (drop kViewIdPrefxLength v)")
            case (Inl e)
            with Some True b c d show ?thesis
              by (auto simp add: checks_all_present)
          next
            case (Inr h)
            obtain e p nm where run: "run h c' d' b' = (e, p, nm)"
              by (cases "run h c' d' b'")
            obtain ok' resp where
              "RunInView_if_view_existed json v h e p nm = Some (ok', json @ [resp])"
              using if_view_existed_returns by blast
            with Some True b c d Inr run show ?thesis
              by (auto simp add: checks_all_present)
          qed
        qed
      qed
    qed
  qed
qed

lemma checks_one_response:
  assumes "RunInView_checks run json a b c d = Inr (ok, js)"
  shows "\<exists>response. js = json @ [response]"
  using checks_outcomes[of run json a b c d] assms by auto

subsection \<open>Unfolding on concrete requests\<close>

lemmas eval_lookup = ValueForKey_def KeyIndex_def KeyIndex_loop.simps array_read_def
lemmas eval_stoull = stoull_base16_def isspace_def isxdigit_def hex_digit_value_def hex_value_def
  kViewIdPrefx_def kViewIdPrefxLength_def
lemmas eval_print = stream_hex_def stream_int64_def dec_of_int_def dec_of_nat.simps
  hex_of_nat.simps digit_char_def

lemma RunInView_one_response:
  assumes "RunInView run param_keys param_values num_params = Inr (ok, js)"
  shows "\<exists>response. js = [response]"
proof -
  from assms obtain a b c d where
    "RunInView_checks run [] a b c d = Inr (ok, js)"
    by (auto simp add: RunInView_def split: sum.splits)
  from checks_one_response[OF this] show ?thesis by simp
qed

lemma RunInView_outcomes:
  assumes "wf_params param_keys param_values num_params"
  shows "(\<exists>ok response. RunInView run param_keys param_values num_params = Inr (ok, [response]))
       \<or> (\<exists>view_id e.
            ValueForKey param_keys param_values num_params ''viewId'' = Inr (Some view_id) \<and>
            prefix kViewIdPrefx view_id \<and>
            stoull_base16 (drop kViewIdPrefxLength view_id) = Inl e \<and>
            RunInView run param_keys param_values num_params = Inl e)"
proof -
  obtain a b c d where
    a: "ValueForKey param_keys param_values num_params ''viewId'' = Inr a" and
    r: "RunInView run param_keys param_values num_params = RunInView_checks run [] a b c d"
    using RunInView_wf[OF assms, of run] by blast
  from checks_outcomes[of run "[]" a b c d] show ?thesis
    unfolding r a by auto
qed

lemmas eval_request = request_keys_def request_values_def

subsection \<open>The loop of \<^verbatim>\<open>ListViews\<close>\<close>

lemma comma_separated_Cons:
  "comma_separated (x # xs) = x @ (if xs = [] then [] else '','' @ comma_separated xs)"
  by (cases xs) simp_all

lemma AppendFlutterView_descriptor:
  "AppendFlutterView stream (view_address view) (GetUIIsolateMainPort view) (GetUIIsolateName view) =
     stream @ view_descriptor view"
  by (simp add: AppendFlutterView_def AppendIsolateRef_def view_descriptor_def Let_def
        kViewIdPrefx_def)

lemma ListViews_iterator_step:
  "ListViews_iterator (response, prefix_comma) view =
     (True, ((if prefix_comma then response @ '','' else response) @ view_descriptor view, True))"
  by (simp add: ListViews_iterator_def AppendFlutterView_descriptor Let_def)

lemma IteratePlatformViews_ListViews:
  "IteratePlatformViews ListViews_iterator views (response, prefix_comma) =
     (response @ (if views = [] then []
                  else (if prefix_comma then '','' else []) @
                       comma_separated (map view_descriptor views)),
      prefix_comma \<or> views \<noteq> [])"
proof (induction views arbitrary: response prefix_comma)
  case Nil
  show ?case by simp
next
  case (Cons view views)
  show ?case
    by (simp add: ListViews_iterator_step Cons.IH comma_separated_Cons)
qed

lemma ListViews_response:
  \<open>ListViews views =
     (True, [''{"type":"FlutterViewList","views":['' @
             comma_separated (map view_descriptor views) @ '']}''])\<close>
  by (simp add: ListViews_def IteratePlatformViews_ListViews)

subsection \<open>Hexadecimal digits are read back as written\<close>

lemma digit_char_hex: "d < 16 \<Longrightarrow> hex_digit_value (digit_char d) = Some d"
proof -
  assume "d < 16"
  then have "d = 0 \<or> d = 1 \<or> d = 2 \<or> d = 3 \<or> d = 4 \<or> d = 5 \<or> d = 6 \<or> d = 7 \<or> d = 8 \<or> d = 9
           \<or> d = 10 \<or> d = 11 \<or> d = 12 \<or> d = 13 \<or> d = 14 \<or> d = 15" by arith
  then show ?thesis
    by (auto simp add: digit_char_def hex_digit_value_def)
qed

lemma hex_value_snoc:
  "hex_value (ds @ [c]) =
     hex_value ds * 16 + (case hex_digit_value c of Some d \<Rightarrow> d | None \<Rightarrow> 0)"
  by (simp add: hex_value_def)

lemma hex_of_nat_digits:
  "hex_of_nat n \<noteq> [] \<and> (\<forall>c \<in> set (hex_of_nat n). isxdigit c) \<and> hex_value (hex_of_nat n) = n"
proof (induction n rule: hex_of_nat.induct)
  case (1 n)
  show ?case
  proof (cases "n < 16")
    case True
    then show ?thesis
      by (subst (1 2 3) hex_of_nat.simps) (simp add: isxdigit_def digit_char_hex hex_value_def)
  next
    case False
    have m: "n mod 16 < 16" by simp
    from False "1.IH" have ih: "\<forall>c \<in> set (hex_of_nat (n div 16)). isxdigit c"
      "hex_value (hex_of_nat (n div 16)) = n div 16" by simp_all
    from False ih m show ?thesis
      by (subst (1 2 3) hex_of_nat.simps)
         (simp add: isxdigit_def digit_char_hex hex_value_snoc)
  qed
qed

lemma stoull_base16_hex_of_nat:
  assumes "n < 2 ^ 64"
  shows "stoull_base16 (''0x'' @ hex_of_nat n) = Inr (word_of_nat n)"
proof -
  obtain h t where ht: "hex_of_nat n = h # t"
    using hex_of_nat_digits[of n] by (cases "hex_of_nat n") auto
  with hex_of_nat_digits[of n] have hx: "isxdigit h" and tx: "\<forall>c \<in> set t. isxdigit c"
    by auto
  have tw: "takeWhile isxdigit t = t"
    using tx by (simp add: takeWhile_eq_all_conv)
  have v: "hex_value (h # t) = n"
    using hex_of_nat_digits[of n] ht by simp
  have sp: "\<not> isspace CHR ''0''" by (simp add: isspace_def)
  show ?thesis
    using assms hx v sp by (simp add: stoull_base16_def ht Let_def tw)
qed

lemma stoull_base16_stream_hex: "stoull_base16 (''0x'' @ stream_hex w) = Inr w"
proof -
  have "unat w < 2 ^ 64"
    using unsigned_less[of w, where ?'a = nat] by simp
  from stoull_base16_hex_of_nat[OF this] show ?thesis
    by (simp add: stream_hex_def)
qed

lemma view_descriptor_id:
  \<open>\<exists>rest. view_descriptor view =
      ''{"type":"FlutterView", "id": "_flutterView/0x'' @ stream_hex (view_address view) @
      ''"'' @ rest\<close>
  by (simp add: view_descriptor_def)

subsection \<open>The screenshot tasks without a frame\<close>

lemma GetRandomRasterizer_first:
  "GetRandomRasterizer views =
     (case views of [] \<Rightarrow> None | view # _ \<Rightarrow> GetWeakRasterizerPtr view)"
  by (cases views) (simp_all add: GetRandomRasterizer_def)

lemma ScreenshotGpuTask_no_frame:
  "no_last_frame views \<Longrightarrow> ScreenshotGpuTask g views bitmap = Inr bitmap"
  by (auto simp add: no_last_frame_def ScreenshotGpuTask_def GetRandomRasterizer_first
        split: list.splits option.splits)

lemma ScreenshotSkpGpuTask_no_frame:
  "no_last_frame views \<Longrightarrow> ScreenshotSkpGpuTask g views = None"
  by (auto simp add: no_last_frame_def ScreenshotSkpGpuTask_def GetRandomRasterizer_first
        split: list.splits option.splits)

section \<open>The claims\<close>

text \<open>
  C1, as stated, fails: a missing required parameter is not always answered by a
  MissingParameter error that names it. In the request below \<^verbatim>\<open>assetDirectory\<close> is
  missing and \<^verbatim>\<open>viewId\<close> is present without the view-id prefix; the prefix check comes
  before the checks of the other three parameters, and the response is the
  BadParameter error about \<^verbatim>\<open>viewId\<close>.
\<close>

theorem RunInView_missing_parameter_counterexample:
  \<open>ValueForKey (Some [''viewId'', ''mainScript'', ''packagesFile''])
      [''7f00ab'', ''main.dart'', ''.packages''] 3 ''assetDirectory'' = Inr None
   \<and> RunInView no_views_shell (Some [''viewId'', ''mainScript'', ''packagesFile''])
      [''7f00ab'', ''main.dart'', ''.packages''] 3 =
       Inr (False, [''{"code":-32602,"message":"Invalid params","data": {"details": "parameter: viewId has a bad value: 7f00ab"}}''])
   \<and> RunInView no_views_shell (Some [''viewId'', ''mainScript'', ''packagesFile''])
      [''7f00ab'', ''main.dart'', ''.packages''] 3 \<noteq>
       Inr (False, [''{"code":-32602,"message":"Invalid params","data": {"details": "assetDirectory"}}''])\<close>
  by (simp add: RunInView_def RunInView_checks_def eval_lookup eval_stoull
        ErrorBadParameter_text)

text \<open>
  C1, amended. For a request whose arrays hold \<open>num_params\<close> entries: when \<^verbatim>\<open>viewId\<close>
  is missing, the response is the MissingParameter error (code -32602, message
  "Invalid params") whose details are \<^verbatim>\<open>viewId\<close>; when \<^verbatim>\<open>viewId\<close> is present and carries
  the prefix \<^verbatim>\<open>_flutterView/\<close>, the response is the MissingParameter error whose details
  name the first missing parameter in the order \<^verbatim>\<open>assetDirectory\<close>, \<^verbatim>\<open>mainScript\<close>,
  \<^verbatim>\<open>packagesFile\<close>. In each case one response is written and the handler returns
  false.
\<close>

theorem RunInView_missing_parameter:
  assumes "wf_params param_keys param_values num_params"
  shows \<open>(ValueForKey param_keys param_values num_params ''viewId'' = Inr None \<longrightarrow>
            RunInView run param_keys param_values num_params =
              Inr (False, [''{"code":-32602,"message":"Invalid params","data": {"details": "viewId"}}'']))
       \<and> (\<forall>v. ValueForKey param_keys param_values num_params ''viewId'' = Inr (Some v) \<and>
               prefix kViewIdPrefx v \<and>
               ValueForKey param_keys param_values num_params ''assetDirectory'' = Inr None \<longrightarrow>
            RunInView run param_keys param_values num_params =
              Inr (False, [''{"code":-32602,"message":"Invalid params","data": {"details": "assetDirectory"}}'']))
       \<and> (\<forall>v. ValueForKey param_keys param_values num_params ''viewId'' = Inr (Some v) \<and>
               prefix kViewIdPrefx v \<and>
               ValueForKey param_keys param_values num_params ''assetDirectory'' \<noteq> Inr None \<and>
               ValueForKey param_keys param_values num_params ''mainScript'' = Inr None \<longrightarrow>
            RunInView run param_keys param_values num_params =
              Inr (False, [''{"code":-32602,"message":"Invalid params","data": {"details": "mainScript"}}'']))
       \<and> (\<forall>v. ValueForKey param_keys param_values num_params ''viewId'' = Inr (Some v) \<and>
               prefix kViewIdPrefx v \<and>
               ValueForKey param_keys param_values num_params ''assetDirectory'' \<noteq> Inr None \<and>
               ValueForKey param_keys param_values num_params ''mainScript'' \<noteq> Inr None \<and>
               ValueForKey param_keys param_values num_params ''packagesFile'' = Inr None \<longrightarrow>
            RunInView run param_keys param_values num_params =
              Inr (False, [''{"code":-32602,"message":"Invalid params","data": {"details": "packagesFile"}}'']))\<close>
proof -
  obtain a b c d where
    a: "ValueForKey param_keys param_values num_params ''viewId'' = Inr a" and
    b: "ValueForKey param_keys param_values num_params ''assetDirectory'' = Inr b" and
    c: "ValueForKey param_keys param_values num_params ''mainScript'' = Inr c" and
    d: "ValueForKey param_keys param_values num_params ''packagesFile'' = Inr d" and
    r: "RunInView run param_keys param_values num_params = RunInView_checks run [] a b c d"
    using RunInView_wf[OF assms, of run] by blast
  show ?thesis
    unfolding a b c d r
    by (auto simp add: checks_no_viewId checks_no_assetDirectory checks_no_mainScript
          checks_no_packagesFile ErrorMissingParameter_text)
qed

theorem RunInView_missing_parameter_witness:
  \<open>(wf_params (Some request_keys) request_values 0
     \<and> ValueForKey (Some request_keys) request_values 0 ''viewId'' = Inr None
     \<and> RunInView no_views_shell (Some request_keys) request_values 0 =
         Inr (False, [''{"code":-32602,"message":"Invalid params","data": {"details": "viewId"}}'']))
   \<and> (wf_params (Some request_keys) request_values 1
     \<and> ValueForKey (Some request_keys) request_values 1 ''viewId'' = Inr (Some ''_flutterView/0x7f00ab'')
     \<and> prefix kViewIdPrefx ''_flutterView/0x7f00ab''
     \<and> ValueForKey (Some request_keys) request_values 1 ''assetDirectory'' = Inr None
     \<and> RunInView no_views_shell (Some request_keys) request_values 1 =
         Inr (False, [''{"code":-32602,"message":"Invalid params","data": {"details": "assetDirectory"}}'']))
   \<and> (wf_params (Some request_keys) request_values 2
     \<and> ValueForKey (Some request_keys) request_values 2 ''assetDirectory'' \<noteq> Inr None
     \<and> ValueForKey (Some request_keys) request_values 2 ''mainScript'' = Inr None
     \<and> RunInView no_views_shell (Some request_keys) request_values 2 =
         Inr (False, [''{"code":-32602,"message":"Invalid params","data": {"details": "mainScript"}}'']))
   \<and> (wf_params (Some request_keys) request_values 3
     \<and> ValueForKey (Some request_keys) request_values 3 ''mainScript'' \<noteq> Inr None
     \<and> ValueForKey (Some request_keys) request_values 3 ''packagesFile'' = Inr None
     \<and> RunInView no_views_shell (Some request_keys) request_values 3 =
         Inr (False, [''{"code":-32602,"message":"Invalid params","data": {"details": "packagesFile"}}'']))\<close>
proof -
  have wf: "wf_params (Some request_keys) request_values 0"
    "wf_params (Some request_keys) request_values 1"
    "wf_params (Some request_keys) request_values 2"
    "wf_params (Some request_keys) request_values 3"
    by (simp_all add: wf_params_def eval_request)
  have p: "prefix kViewIdPrefx ''_flutterView/0x7f00ab''"
    by (simp add: kViewIdPrefx_def)
  have l0: "ValueForKey (Some request_keys) request_values 0 ''viewId'' = Inr None"
    by (simp add: eval_lookup eval_request)
  have l1: "ValueForKey (Some request_keys) request_values 1 ''viewId'' = Inr (Some ''_flutterView/0x7f00ab'')"
    "ValueForKey (Some request_keys) request_values 1 ''assetDirectory'' = Inr None"
    by (simp_all add: eval_lookup eval_request)
  have l2: "ValueForKey (Some request_keys) request_values 2 ''viewId'' = Inr (Some ''_flutterView/0x7f00ab'')"
    "ValueForKey (Some request_keys) request_values 2 ''assetDirectory'' \<noteq> Inr None"
    "ValueForKey (Some request_keys) request_values 2 ''mainScript'' = Inr None"
    by (simp_all add: eval_lookup eval_request)
  have l3: "ValueForKey (Some request_keys) request_values 3 ''viewId'' = Inr (Some ''_flutterView/0x7f00ab'')"
    "ValueForKey (Some request_keys) request_values 3 ''assetDirectory'' \<noteq> Inr None"
    "ValueForKey (Some request_keys) request_values 3 ''mainScript'' \<noteq> Inr None"
    "ValueForKey (Some request_keys) request_values 3 ''packagesFile'' = Inr None"
    by (simp_all add: eval_lookup eval_request)
  note t0 = RunInView_missing_parameter[OF wf(1), of no_views_shell]
  note t1 = RunInView_missing_parameter[OF wf(2), of no_views_shell]
  note t2 = RunInView_missing_parameter[OF wf(3), of no_views_shell]
  note t3 = RunInView_missing_parameter[OF wf(4), of no_views_shell]
  have r0: \<open>RunInView no_views_shell (Some request_keys) request_values 0 =
         Inr (False, [''{"code":-32602,"message":"Invalid params","data": {"details": "viewId"}}''])\<close>
    using t0 l0 by blast
  have r1: \<open>RunInView no_views_shell (Some request_keys) request_values 1 =
         Inr (False, [''{"code":-32602,"message":"Invalid params","data": {"details": "assetDirectory"}}''])\<close>
    using t1 l1 p by blast
  have r2: \<open>RunInView no_views_shell (Some request_keys) request_values 2 =
         Inr (False, [''{"code":-32602,"message":"Invalid params","data": {"details": "mainScript"}}''])\<close>
    using t2 l2 p by blast
  have r3: \<open>RunInView no_views_shell (Some request_keys) request_values 3 =
         Inr (False, [''{"code":-32602,"message":"Invalid params","data": {"details": "packagesFile"}}''])\<close>
    using t3 l3 p by blast
  show ?thesis
    using wf p l0 l1 l2(2,3) l3(3,4) r0 r1 r2 r3 by (intro conjI)
qed

text \<open>
  C2. A request with all four parameters whose \<^verbatim>\<open>viewId\<close> carries the prefix
  \<^verbatim>\<open>_flutterView/\<close> followed by nothing, or by text that does not start with a
  hexadecimal digit, or by a number above \<^verbatim>\<open>ULLONG_MAX\<close>: \<^verbatim>\<open>std::stoull\<close> throws, the
  handler catches nothing, and no response is written, whatever the shell would
  answer. A suffix that starts with hexadecimal digits and goes on with other text is
  read as the number the digits give: for the handle of a live view the response is
  the success object.
\<close>

theorem RunInView_unparsable_handle:
  \<open>RunInView run (Some [''viewId'', ''assetDirectory'', ''mainScript'', ''packagesFile''])
     [''_flutterView/'', ''assets'', ''main.dart'', ''.packages''] 4 = Inl std_invalid_argument
   \<and> RunInView run (Some [''viewId'', ''assetDirectory'', ''mainScript'', ''packagesFile''])
     [''_flutterView/zz'', ''assets'', ''main.dart'', ''.packages''] 4 = Inl std_invalid_argument
   \<and> RunInView run (Some [''viewId'', ''assetDirectory'', ''mainScript'', ''packagesFile''])
     [''_flutterView/10000000000000000'', ''assets'', ''main.dart'', ''.packages''] 4 =
       Inl std_out_of_range
   \<and> RunInView one_view_shell (Some [''viewId'', ''assetDirectory'', ''mainScript'', ''packagesFile''])
     [''_flutterView/0x7f00abzz'', ''assets'', ''main.dart'', ''.packages''] 4 =
       Inr (True, [''{"type":"Success","view":{"type":"FlutterView", "id": "_flutterView/0x7f00ab","isolate":{"type":"@Isolate","fixedId":true,"id":"isolates/42","name":"main.dart$main","number":"42"}}}''])\<close>
  by (simp add: RunInView_def RunInView_checks_def eval_lookup eval_stoull
        one_view_shell_def RunInView_if_view_existed_def AppendFlutterView_def
        AppendIsolateRef_def ILLEGAL_PORT_def eval_print)

text \<open>
  C3. With no view, with a view without rasterizer, and with a view whose rasterizer
  has no last layer tree, the GPU task of \<^verbatim>\<open>ScreenshotSkp\<close> returns a null picture and
  the handler dereferences it: no response is written, for every graphics library.
\<close>

theorem ScreenshotSkp_no_frame:
  "ScreenshotSkp g ([] :: (unit, 'more) PlatformView_scheme list) = Inl NullPointerDereference
   \<and> ScreenshotSkp g [headless_view] = Inl NullPointerDereference
   \<and> ScreenshotSkp g [idle_view] = Inl NullPointerDereference"
  by (simp add: ScreenshotSkp_def ScreenshotSkpGpuTask_no_frame no_last_frame_def
        headless_view_def idle_view_def)

text \<open>
  C4. When there is no view, or the first view has no rasterizer, or its rasterizer has
  no last layer tree, the bitmap is left without pixels; when the PNG encoder fails
  on such a bitmap, \<^verbatim>\<open>Screenshot\<close> returns false with the one response
  \<^verbatim>\<open>{"code":-32000,"message":"can not encode screenshot"}\<close>, and does not fault.
\<close>

theorem Screenshot_no_frame:
  assumes "no_last_frame views"
    and "SkEncodeBitmap_PNG g NoPixels = None"
  shows \<open>Screenshot g views =
           Inr (False, [''{"code":-32000,"message":"can not encode screenshot"}''])\<close>
  using assms
  by (simp add: Screenshot_def ScreenshotGpuTask_no_frame EncodeBitmapAsPNG_def ErrorServer_text)

theorem Screenshot_no_frame_witness:
  \<open>no_last_frame ([] :: unit PlatformView list)
   \<and> no_last_frame [headless_view] \<and> no_last_frame [idle_view]
   \<and> SkEncodeBitmap_PNG stub_graphics NoPixels = None
   \<and> Screenshot stub_graphics ([] :: unit PlatformView list) =
       Inr (False, [''{"code":-32000,"message":"can not encode screenshot"}''])
   \<and> Screenshot stub_graphics [headless_view] =
       Inr (False, [''{"code":-32000,"message":"can not encode screenshot"}''])
   \<and> Screenshot stub_graphics [idle_view] =
       Inr (False, [''{"code":-32000,"message":"can not encode screenshot"}''])\<close>
proof -
  have n: "no_last_frame ([] :: unit PlatformView list)" "no_last_frame [headless_view]"
    "no_last_frame [idle_view]"
    by (simp_all add: no_last_frame_def headless_view_def idle_view_def)
  have e: "SkEncodeBitmap_PNG stub_graphics NoPixels = None"
    by (simp add: stub_graphics_def)
  from Screenshot_no_frame[OF n(1) e] Screenshot_no_frame[OF n(2) e]
    Screenshot_no_frame[OF n(3) e] n e
  show ?thesis by simp
qed

text \<open>
  C5. For a request whose arrays hold \<open>num_params\<close> entries and whose \<^verbatim>\<open>viewId\<close> is
  present with a value \<open>v\<close> that does not begin with \<^verbatim>\<open>_flutterView/\<close>, the handler
  returns false with the one response of code -32602 and message "Invalid params"
  whose details are "parameter: viewId has a bad value: " followed by \<open>v\<close>.
\<close>

theorem RunInView_bad_viewId:
  assumes "wf_params param_keys param_values num_params"
    and "ValueForKey param_keys param_values num_params ''viewId'' = Inr (Some v)"
    and "\<not> prefix kViewIdPrefx v"
  shows \<open>RunInView run param_keys param_values num_params =
           Inr (False, [''{"code":-32602,"message":"Invalid params","data": {"details": "parameter: viewId has a bad value: '' @ v @ ''"}}''])\<close>
proof -
  obtain a b c d where
    a: "ValueForKey param_keys param_values num_params ''viewId'' = Inr a" and
    r: "RunInView run param_keys param_values num_params = RunInView_checks run [] a b c d"
    using RunInView_wf[OF assms(1), of run] by blast
  from a assms(2) have "a = Some v" by simp
  with r assms(3) show ?thesis
    by (simp add: checks_bad_viewId ErrorBadParameter_text)
qed

theorem RunInView_bad_viewId_witness:
  \<open>wf_params (Some request_keys) [''7f00ab'', ''assets'', ''main.dart'', ''.packages''] 4
   \<and> ValueForKey (Some request_keys) [''7f00ab'', ''assets'', ''main.dart'', ''.packages''] 4
        ''viewId'' = Inr (Some ''7f00ab'')
   \<and> \<not> prefix kViewIdPrefx ''7f00ab''
   \<and> RunInView one_view_shell (Some request_keys)
        [''7f00ab'', ''assets'', ''main.dart'', ''.packages''] 4 =
       Inr (False, [''{"code":-32602,"message":"Invalid params","data": {"details": "parameter: viewId has a bad value: 7f00ab"}}''])\<close>
proof -
  have wf: "wf_params (Some request_keys) [''7f00ab'', ''assets'', ''main.dart'', ''.packages''] 4"
    by (simp add: wf_params_def eval_request)
  have l: "ValueForKey (Some request_keys) [''7f00ab'', ''assets'', ''main.dart'', ''.packages''] 4
        ''viewId'' = Inr (Some ''7f00ab'')"
    by (simp add: eval_lookup eval_request)
  have p: "\<not> prefix kViewIdPrefx ''7f00ab''"
    by (simp add: kViewIdPrefx_def)
  from RunInView_bad_viewId[OF wf l p, of one_view_shell] wf l p show ?thesis
    by simp
qed

text \<open>
  C6. For a request with the four parameters, whose \<^verbatim>\<open>viewId\<close> \<open>v\<close> carries the prefix and
  whose rest parses to a handle for which the shell reports \<^verbatim>\<open>view_existed = false\<close>,
  the handler returns false with the one response of code -32602 and message
  "Invalid params" whose details are "view not found: " followed by \<open>v\<close>.
\<close>

theorem RunInView_unknown_view:
  assumes "ValueForKey param_keys param_values num_params ''viewId'' = Inr (Some v)"
    and "ValueForKey param_keys param_values num_params ''assetDirectory'' = Inr (Some asset_directory)"
    and "ValueForKey param_keys param_values num_params ''mainScript'' = Inr (Some main_script)"
    and "ValueForKey param_keys param_values num_params ''packagesFile'' = Inr (Some packages_file)"
    and "prefix kViewIdPrefx v"
    and "stoull_base16 (drop kViewIdPrefxLength v) = Inr view_id_as_num"
    and "\<not> fst (run view_id_as_num main_script packages_file asset_directory)"
  shows \<open>RunInView run param_keys param_values num_params =
           Inr (False, [''{"code":-32602,"message":"Invalid params","data": {"details": "view not found: '' @ v @ ''"}}''])\<close>
proof -
  obtain e p nm where run: "run view_id_as_num main_script packages_file asset_directory = (e, p, nm)"
    by (cases "run view_id_as_num main_script packages_file asset_directory")
  with assms(7) have "\<not> e" by simp
  then have "RunInView_if_view_existed [] v view_id_as_num e p nm = Some (ErrorUnknownView [] v)"
    by (simp add: RunInView_if_view_existed_def)
  with run assms(5,6) have
    "RunInView_checks run [] (Some v) (Some asset_directory) (Some main_script) (Some packages_file) =
       Inr (ErrorUnknownView [] v)"
    by (simp add: checks_all_present)
  then show ?thesis
    by (simp add: RunInView_lookups[OF assms(1-4)] ErrorUnknownView_text)
qed

theorem RunInView_unknown_view_witness:
  \<open>ValueForKey (Some request_keys) request_values 4 ''viewId'' = Inr (Some ''_flutterView/0x7f00ab'')
   \<and> ValueForKey (Some request_keys) request_values 4 ''assetDirectory'' = Inr (Some ''assets'')
   \<and> ValueForKey (Some request_keys) request_values 4 ''mainScript'' = Inr (Some ''main.dart'')
   \<and> ValueForKey (Some request_keys) request_values 4 ''packagesFile'' = Inr (Some ''.packages'')
   \<and> prefix kViewIdPrefx ''_flutterView/0x7f00ab''
   \<and> stoull_base16 (drop kViewIdPrefxLength ''_flutterView/0x7f00ab'') = Inr 0x7f00ab
   \<and> \<not> fst (no_views_shell 0x7f00ab ''main.dart'' ''.packages'' ''assets'')
   \<and> RunInView no_views_shell (Some request_keys) request_values 4 =
       Inr (False, [''{"code":-32602,"message":"Invalid params","data": {"details": "view not found: _flutterView/0x7f00ab"}}''])\<close>
proof -
  have l: "ValueForKey (Some request_keys) request_values 4 ''viewId'' = Inr (Some ''_flutterView/0x7f00ab'')"
    "ValueForKey (Some request_keys) request_values 4 ''assetDirectory'' = Inr (Some ''assets'')"
    "ValueForKey (Some request_keys) request_values 4 ''mainScript'' = Inr (Some ''main.dart'')"
    "ValueForKey (Some request_keys) request_values 4 ''packagesFile'' = Inr (Some ''.packages'')"
    by (simp_all add: eval_lookup eval_request)
  have p: "prefix kViewIdPrefx ''_flutterView/0x7f00ab''"
    by (simp add: kViewIdPrefx_def)
  have s: "stoull_base16 (drop kViewIdPrefxLength ''_flutterView/0x7f00ab'') = Inr 0x7f00ab"
    by (simp add: eval_stoull)
  have v: "\<not> fst (no_views_shell 0x7f00ab ''main.dart'' ''.packages'' ''assets'')"
    by (simp add: no_views_shell_def)
  from RunInView_unknown_view[where run = no_views_shell, OF l p s v] l p s v show ?thesis
    by simp
qed

text \<open>
  C7. The response of \<^verbatim>\<open>ListViews\<close> is the envelope
  \<^verbatim>\<open>{"type":"FlutterViewList","views":[\<close> ... \<^verbatim>\<open>]}\<close> around the descriptors of the views,
  one for each view, in the order of the views and separated by commas. Each
  descriptor starts with the id \<^verbatim>\<open>_flutterView/0x\<close> followed by the digits written for the
  address of the view, and these digits are its hexadecimal encoding: \<^verbatim>\<open>stoull\<close> in
  base 16 reads the address back from them. With no view the array is empty.
\<close>

theorem ListViews_envelope:
  \<open>ListViews (views :: ('tree, 'more) PlatformView_scheme list) =
     (True, [''{"type":"FlutterViewList","views":['' @
             comma_separated (map view_descriptor views) @ '']}''])
   \<and> length (map view_descriptor views) = length views
   \<and> (\<forall>view \<in> set views.
         (\<exists>rest. view_descriptor view =
            ''{"type":"FlutterView", "id": "_flutterView/0x'' @ stream_hex (view_address view) @
            ''"'' @ rest)
       \<and> stoull_base16 (''0x'' @ stream_hex (view_address view)) = Inr (view_address view))
   \<and> ListViews ([] :: ('tree, 'more) PlatformView_scheme list) =
       (True, [''{"type":"FlutterViewList","views":[]}''])\<close>
proof (intro conjI ballI)
  show \<open>ListViews views =
     (True, [''{"type":"FlutterViewList","views":['' @
             comma_separated (map view_descriptor views) @ '']}''])\<close>
    by (rule ListViews_response)
  show "length (map view_descriptor views) = length views"
    by simp
  show \<open>\<exists>rest. view_descriptor view =
            ''{"type":"FlutterView", "id": "_flutterView/0x'' @ stream_hex (view_address view) @
            ''"'' @ rest\<close> for view
    by (rule view_descriptor_id)
  show "stoull_base16 (''0x'' @ stream_hex (view_address view)) = Inr (view_address view)" for view
    by (rule stoull_base16_stream_hex)
  show \<open>ListViews ([] :: ('tree, 'more) PlatformView_scheme list) =
       (True, [''{"type":"FlutterViewList","views":[]}''])\<close>
    by (simp add: ListViews_response)
qed

theorem ListViews_envelope_witness:
  \<open>headless_view \<in> set [headless_view, idle_view] \<and> idle_view \<in> set [headless_view, idle_view]
   \<and> ListViews [headless_view, idle_view] =
     (True, [''{"type":"FlutterViewList","views":[{"type":"FlutterView", "id": "_flutterView/0x10"},{"type":"FlutterView", "id": "_flutterView/0x7f00ab","isolate":{"type":"@Isolate","fixedId":true,"id":"isolates/42","name":"main.dart$main","number":"42"}}]}''])
   \<and> stoull_base16 (''0x'' @ stream_hex (view_address idle_view)) = Inr 0x7f00ab
   \<and> stoull_base16 (''0x'' @ stream_hex (view_address headless_view)) = Inr 0x10\<close>
proof -
  note t = ListViews_envelope[of "[headless_view, idle_view]"]
  have m: "headless_view \<in> set [headless_view, idle_view]" "idle_view \<in> set [headless_view, idle_view]"
    by simp_all
  have d: \<open>comma_separated (map view_descriptor [headless_view, idle_view]) =
     ''{"type":"FlutterView", "id": "_flutterView/0x10"},{"type":"FlutterView", "id": "_flutterView/0x7f00ab","isolate":{"type":"@Isolate","fixedId":true,"id":"isolates/42","name":"main.dart$main","number":"42"}}''\<close>
    by (simp add: view_descriptor_def headless_view_def idle_view_def ILLEGAL_PORT_def eval_print)
  have a: "view_address idle_view = 0x7f00ab" "view_address headless_view = 0x10"
    by (simp_all add: idle_view_def headless_view_def)
  from t m have "stoull_base16 (''0x'' @ stream_hex (view_address idle_view)) = Inr (view_address idle_view)"
    "stoull_base16 (''0x'' @ stream_hex (view_address headless_view)) = Inr (view_address headless_view)"
    by blast+
  moreover from t have \<open>ListViews [headless_view, idle_view] =
     (True, [''{"type":"FlutterViewList","views":['' @
             comma_separated (map view_descriptor [headless_view, idle_view]) @ '']}''])\<close>
    by blast
  ultimately show ?thesis using m a d by simp
qed

text \<open>
  C8. \<^verbatim>\<open>RegisterHook\<close> with \<open>running_precompiled_code\<close> true adds the registrations of
  \<^verbatim>\<open>_flutter.listViews\<close>, \<^verbatim>\<open>_flutter.screenshot\<close> and \<^verbatim>\<open>_flutter.screenshotSkp\<close> and no
  other, so that the handlers of \<^verbatim>\<open>_flutter.runInView\<close> and
  \<^verbatim>\<open>_flutter.flushUIThreadTasks\<close> are not registered; with \<open>running_precompiled_code\<close>
  false it adds all five.
\<close>

theorem RegisterHook_registrations:
  "RegisterHook True reg =
     reg @ [(''_flutter.listViews'', ListViews_handler),
            (''_flutter.screenshot'', Screenshot_handler),
            (''_flutter.screenshotSkp'', ScreenshotSkp_handler)]
   \<and> RegisterHook False reg =
     reg @ [(''_flutter.listViews'', ListViews_handler),
            (''_flutter.screenshot'', Screenshot_handler),
            (''_flutter.screenshotSkp'', ScreenshotSkp_handler),
            (''_flutter.runInView'', RunInView_handler),
            (''_flutter.flushUIThreadTasks'', FlushUIThreadTasks_handler)]
   \<and> RunInView_handler \<notin> snd ` set (RegisterHook True [])
   \<and> FlushUIThreadTasks_handler \<notin> snd ` set (RegisterHook True [])"
  by (simp add: RegisterHook_def Dart_RegisterRootServiceRequestCallback_def
        kListViewsExtensionName_def kScreenshotExtensionName_def kScreenshotSkpExtensionName_def
        kRunInViewExtensionName_def kFlushUIThreadTasksExtensionName_def)

text \<open>
  C9. The sentence "for every call exactly one response string is produced" fails on
  the code. The request below is well formed and has the four parameters; its
  \<^verbatim>\<open>viewId\<close> is the prefix \<^verbatim>\<open>_flutterView/\<close> alone. The checks before the conversion pass,
  \<^verbatim>\<open>std::stoull\<close> throws on the empty text, and the call ends before the \<^verbatim>\<open>if\<close>/\<^verbatim>\<open>else\<close>
  over \<^verbatim>\<open>view_existed\<close> with no response written, whatever the shell is.
\<close>

theorem RunInView_call_without_response:
  "wf_params (Some [''viewId'', ''assetDirectory'', ''mainScript'', ''packagesFile''])
     [''_flutterView/'', ''assets'', ''main.dart'', ''.packages''] 4
   \<and> ValueForKey (Some [''viewId'', ''assetDirectory'', ''mainScript'', ''packagesFile''])
       [''_flutterView/'', ''assets'', ''main.dart'', ''.packages''] 4 ''viewId'' =
       Inr (Some ''_flutterView/'')
   \<and> RunInView run (Some [''viewId'', ''assetDirectory'', ''mainScript'', ''packagesFile''])
       [''_flutterView/'', ''assets'', ''main.dart'', ''.packages''] 4 = Inl std_invalid_argument
   \<and> (\<forall>ok json_object.
        RunInView run (Some [''viewId'', ''assetDirectory'', ''mainScript'', ''packagesFile''])
          [''_flutterView/'', ''assets'', ''main.dart'', ''.packages''] 4 \<noteq> Inr (ok, json_object))"
  by (simp add: wf_params_def RunInView_def RunInView_checks_def eval_lookup eval_stoull)

text \<open>
  C10. For arrays that hold \<open>num_params\<close> entries, \<^verbatim>\<open>ValueForKey\<close> always returns: it
  returns \<^verbatim>\<open>NULL\<close> when the key array is \<^verbatim>\<open>NULL\<close>, the value at the smallest index below
  \<open>num_params\<close> whose key equals the key looked up when there is one (so the first of
  two duplicate keys), and \<^verbatim>\<open>NULL\<close> when there is none.
\<close>

theorem ValueForKey_first_match:
  assumes "wf_params param_keys param_values num_params"
  shows "(param_keys = None \<longrightarrow>
            ValueForKey param_keys param_values num_params key = Inr None)
       \<and> (\<forall>keys i. param_keys = Some keys \<and> i < nat num_params \<and> keys ! i = key \<and>
                   (\<forall>j < i. keys ! j \<noteq> key) \<longrightarrow>
            ValueForKey param_keys param_values num_params key = Inr (Some (param_values ! i)))
       \<and> (\<forall>keys. param_keys = Some keys \<and> (\<forall>i < nat num_params. keys ! i \<noteq> key) \<longrightarrow>
            ValueForKey param_keys param_values num_params key = Inr None)
       \<and> (\<exists>r. ValueForKey param_keys param_values num_params key = Inr r)"
  using assms ValueForKey_NULL_keys ValueForKey_found ValueForKey_absent ValueForKey_returns
  by auto

theorem ValueForKey_first_match_witness:
  "wf_params (Some [''mainScript'', ''viewId'', ''viewId'']) [''m'', ''first'', ''second''] 3
   \<and> [''mainScript'', ''viewId'', ''viewId''] ! 0 \<noteq> ''viewId''
   \<and> [''mainScript'', ''viewId'', ''viewId''] ! 1 = ''viewId''
   \<and> ValueForKey (Some [''mainScript'', ''viewId'', ''viewId'']) [''m'', ''first'', ''second''] 3
        ''viewId'' = Inr (Some ''first'')
   \<and> ''packagesFile'' \<notin> set [''mainScript'', ''viewId'', ''viewId'']
   \<and> ValueForKey (Some [''mainScript'', ''viewId'', ''viewId'']) [''m'', ''first'', ''second''] 3
        ''packagesFile'' = Inr None
   \<and> wf_params None [] 3
   \<and> ValueForKey None [] 3 ''viewId'' = Inr None"
proof -
  have wf: "wf_params (Some [''mainScript'', ''viewId'', ''viewId'']) [''m'', ''first'', ''second''] 3"
    by (simp add: wf_params_def)
  have wfn: "wf_params None [] 3"
    by (simp add: wf_params_def)
  have k: "[''mainScript'', ''viewId'', ''viewId''] ! 1 = ''viewId''"
    "\<forall>j < 1. [''mainScript'', ''viewId'', ''viewId''] ! j \<noteq> ''viewId''"
    "(1::nat) < nat 3"
    by simp_all
  have a: "\<forall>i < nat 3. [''mainScript'', ''viewId'', ''viewId''] ! i \<noteq> ''packagesFile''"
  proof (intro allI impI)
    fix i :: nat assume "i < nat 3"
    then have "i = 0 \<or> i = 1 \<or> i = 2" by arith
    then show "[''mainScript'', ''viewId'', ''viewId''] ! i \<noteq> ''packagesFile''" by auto
  qed
  from ValueForKey_first_match[OF wf, of "''viewId''"] k
  have f: "ValueForKey (Some [''mainScript'', ''viewId'', ''viewId'']) [''m'', ''first'', ''second''] 3
        ''viewId'' = Inr (Some ([''m'', ''first'', ''second''] ! 1))"
    by blast
  from ValueForKey_first_match[OF wf, of "''packagesFile''"] a
  have g: "ValueForKey (Some [''mainScript'', ''viewId'', ''viewId'']) [''m'', ''first'', ''second''] 3
        ''packagesFile'' = Inr None"
    by blast
  from ValueForKey_first_match[OF wfn, of "''viewId''"]
  have h: "ValueForKey None [] 3 ''viewId'' = Inr None"
    by blast
  from wf wfn k(1) f g h show ?thesis by simp
qed

end
